theory Spec2Isabelle
  imports Main "HOL-Library.Sublist"
begin

section \<open>The cluster reporter of \<^verbatim>\<open>main.go\<close>\<close>

text \<open>
  The program builds a Kubernetes client, then loops forever: five list queries, one
  get query, a separator, ten seconds of sleep. Go strings are byte strings, so a string
  is a \<open>char list\<close> and the Turkish letters of the messages are written as their
  UTF-8 bytes. Standard output is the sequence of writes, one element for each call of
  \<^verbatim>\<open>fmt.Printf\<close> or \<^verbatim>\<open>fmt.Println\<close>, in order.
\<close>

subsection \<open>Data of the collaborator, as far as \<^verbatim>\<open>main.go\<close> reads it\<close>

text \<open>
  \<^verbatim>\<open>metav1.Status\<close>: only \<^verbatim>\<open>Message\<close> is read (line 134).
\<close>

record Status =
  Message :: string

text \<open>
  A non-nil Go \<^verbatim>\<open>error\<close> value, by the three observations the program makes
  of it: the text of \<^verbatim>\<open>err.Error()\<close> (the verb \<^verbatim>\<open>%v\<close> on an error prints it),
  the answer of \<^verbatim>\<open>errors.IsNotFound(err)\<close>, and whether its dynamic type is
  \<^verbatim>\<open>*errors.StatusError\<close>, then with its \<^verbatim>\<open>ErrStatus\<close>. The three are kept
  independent: the library decides them, not this program. The nil error is
  \<open>None\<close> of \<open>go_error option\<close>.
\<close>

record go_error =
  err_Error :: string
  err_IsNotFound :: bool
  err_StatusError :: "Status option"

definition IsNotFound :: "go_error option \<Rightarrow> bool" where
  "IsNotFound err = (case err of None \<Rightarrow> False | Some e \<Rightarrow> err_IsNotFound e)"

definition asStatusError :: "go_error option \<Rightarrow> Status option" where
  "asStatusError err = (case err of None \<Rightarrow> None | Some e \<Rightarrow> err_StatusError e)"

record PodStatus =
  Phase :: string
  PodIP :: string

record PodSpec =
  NodeName :: string

record Pod =
  pod_Name :: string
  Status :: PodStatus
  Spec :: PodSpec

record Namespace =
  ns_Name :: string

record Node =
  node_Name :: string

text \<open>An event carries a time stamp (seconds); the program never reads it.\<close>

record Event =
  ev_Name :: string
  LastTimestamp :: int

record PersistentVolumeClaimStatus =
  pvc_Phase :: string

record PersistentVolumeClaim =
  Name :: string
  pvc_Status :: PersistentVolumeClaimStatus

text \<open>
  Modelled from the spec: the constant \<^verbatim>\<open>corev1.ClaimBound\<close> belongs to the
  imported package \<^verbatim>\<open>k8s.io/api/core/v1\<close>, not to this repository; it is the
  phase the spec calls bound. No proof below unfolds it, except to evaluate a concrete
  input.
\<close>

definition ClaimBound :: string where
  "ClaimBound = ''Bound''"

text \<open>A list result: \<^verbatim>\<open>pods.Items\<close>, \<^verbatim>\<open>nodes.Items\<close>, ...\<close>

record 'a ItemList =
  Items :: "'a list"

text \<open>
  \<^verbatim>\<open>metav1.ListOptions\<close> and \<^verbatim>\<open>metav1.GetOptions\<close>, by the fields that
  restrict what a request returns. The program always passes the zero value
  \<^verbatim>\<open>metav1.ListOptions{}\<close> or \<^verbatim>\<open>metav1.GetOptions{}\<close>.
\<close>

record ListOptions =
  LabelSelector :: string
  FieldSelector :: string
  Limit :: int
  Continue :: string

definition ListOptions_zero :: ListOptions where
  "ListOptions_zero =
     \<lparr>LabelSelector = [], FieldSelector = [], Limit = 0, Continue = []\<rparr>"

record GetOptions =
  ResourceVersion :: string

definition GetOptions_zero :: GetOptions where
  "GetOptions_zero = \<lparr>ResourceVersion = []\<rparr>"

subsection \<open>Requests sent to the API server\<close>

text \<open>
  The program sends only \<^verbatim>\<open>List\<close> and \<^verbatim>\<open>Get\<close> requests. The typed clients
  of \<^verbatim>\<open>client-go\<close> offer more: \<^verbatim>\<open>Watch\<close>, and the verbs that change the
  cluster, which are here so that "no write" says something.
\<close>

datatype write_verb = Create | Update | UpdateStatus | Patch | Delete | DeleteCollection

datatype resource = Pods | Namespaces | Nodes | Events | PersistentVolumeClaims

datatype request =
  ListRequest resource string ListOptions
  | GetRequest resource string string GetOptions
  | WatchRequest resource string ListOptions
  | WriteRequest write_verb resource string string

fun is_list_or_get :: "request \<Rightarrow> bool" where
  "is_list_or_get (ListRequest r ns opts) = True"
| "is_list_or_get (GetRequest r ns n opts) = True"
| "is_list_or_get (WatchRequest r ns opts) = False"
| "is_list_or_get (WriteRequest v r ns n) = False"

fun is_write :: "request \<Rightarrow> bool" where
  "is_write (WriteRequest v r ns n) = True"
| "is_write r = False"

text \<open>
  \<^verbatim>\<open>*kubernetes.Clientset\<close>: the six operations the program calls, each returning
  the pair of Go results \<^verbatim>\<open>(value, err)\<close>. Within one iteration every operation is
  called once, so a response for each request is all an iteration can see.
\<close>

record clientset =
  Pods_List :: "string \<Rightarrow> ListOptions \<Rightarrow> Pod ItemList \<times> go_error option"
  Namespaces_List :: "ListOptions \<Rightarrow> Namespace ItemList \<times> go_error option"
  Nodes_List :: "ListOptions \<Rightarrow> Node ItemList \<times> go_error option"
  Events_List :: "string \<Rightarrow> ListOptions \<Rightarrow> Event ItemList \<times> go_error option"
  PersistentVolumeClaims_List ::
    "string \<Rightarrow> ListOptions \<Rightarrow> PersistentVolumeClaim ItemList \<times> go_error option"
  Pods_Get :: "string \<Rightarrow> string \<Rightarrow> GetOptions \<Rightarrow> Pod \<times> go_error option"

subsection \<open>The state the program acts on\<close>

text \<open>
  \<open>stdout\<close>: the writes so far; \<open>requests\<close>: the requests sent to the API server so
  far; \<open>slept\<close>: the seconds spent in \<^verbatim>\<open>time.Sleep\<close>; \<open>bootstrap\<close>: the calls
  made to build the client (lines 44 and 49).
\<close>

datatype boot_call = CallBuildConfigFromFlags string string | CallNewForConfig

record world =
  stdout :: "string list"
  requests :: "request list"
  slept :: nat
  bootstrap :: "boot_call list"

definition world0 :: world where
  "world0 = \<lparr>stdout = [], requests = [], slept = 0, bootstrap = []\<rparr>"

definition send :: "request \<Rightarrow> world \<Rightarrow> world" where
  "send r w = w\<lparr>requests := requests w @ [r]\<rparr>"

text \<open>
  \<^verbatim>\<open>fmt.Printf\<close> writes the formatted string; the callers below build it by
  concatenation, verb by verb. \<^verbatim>\<open>fmt.Println\<close> adds the newline.
\<close>

definition Printf :: "string \<Rightarrow> world \<Rightarrow> world" where
  "Printf s w = w\<lparr>stdout := stdout w @ [s]\<rparr>"

definition Println :: "string \<Rightarrow> world \<Rightarrow> world" where
  "Println s w = w\<lparr>stdout := stdout w @ [s @ ''\<newline>'']\<rparr>"

definition Sleep :: "nat \<Rightarrow> world \<Rightarrow> world" where
  "Sleep secs w = w\<lparr>slept := slept w + secs\<rparr>"

subsection \<open>The verb \<^verbatim>\<open>%d\<close> on a length\<close>

text \<open>\<^verbatim>\<open>len\<close> is never negative, so \<^verbatim>\<open>%d\<close> prints decimal digits only.\<close>

definition digit :: "nat \<Rightarrow> char" where
  "digit d = char_of (48 + d)"

function fmt_d :: "nat \<Rightarrow> string" where
  "fmt_d n = (if n < 10 then [digit n] else fmt_d (n div 10) @ [digit (n mod 10)])"
  by pat_completeness auto
termination
  by (relation "measure id") auto

declare fmt_d.simps [simp del]

text \<open>Reading a decimal numeral back, to say that the printed count is the number.\<close>

definition digit_val :: "char \<Rightarrow> nat" where
  "digit_val c = of_char c - 48"

definition read_d :: "string \<Rightarrow> nat" where
  "read_d s = foldl (\<lambda>acc c. 10 * acc + digit_val c) 0 s"

subsection \<open>The Turkish letters, in UTF-8\<close>

definition g_breve :: string where "g_breve = [CHR 0xC4, CHR 0x9F]"
definition dotless_i :: string where "dotless_i = [CHR 0xC4, CHR 0xB1]"
definition s_cedilla :: string where "s_cedilla = [CHR 0xC5, CHR 0x9F]"
definition c_cedilla :: string where "c_cedilla = [CHR 0xC3, CHR 0xA7]"
definition u_umlaut :: string where "u_umlaut = [CHR 0xC3, CHR 0xBC]"

text \<open>\<^verbatim>\<open>hata olustu\<close>, \<^verbatim>\<open>icinde\<close> with their letters.\<close>

definition hata_olustu :: string where
  "hata_olustu = ''hata olu'' @ s_cedilla @ ''tu''"

definition icinde :: string where
  "icinde = ''i'' @ c_cedilla @ ''inde''"

subsection \<open>The two error types of the program (lines 18 to 33)\<close>

datatype NoNodesInKubernetes = NoNodesInKubernetes

fun NoNodesInKubernetes_Error :: "NoNodesInKubernetes \<Rightarrow> string" where
  "NoNodesInKubernetes_Error NoNodesInKubernetes =
     ''Kubernetes cluster'' @ [CHR 0x27] @ dotless_i @ ''nda hi'' @ c_cedilla
       @ '' node yok''"

record PersistentVolumeClaimNotInStatus =
  pvc :: PersistentVolumeClaim
  pvcStatusPhase :: string

definition PersistentVolumeClaimNotInStatus_Error ::
  "PersistentVolumeClaimNotInStatus \<Rightarrow> string" where
  "PersistentVolumeClaimNotInStatus_Error err =
     ''PersistentVolumeClaim '' @ Name (pvc err) @ '' beklenen '' @ pvcStatusPhase err
       @ '' durumunda de'' @ g_breve @ ''il''"


subsection \<open>The five list queries (lines 72 to 127)\<close>

definition checkPods :: "clientset \<Rightarrow> world \<Rightarrow> world" where
  "checkPods cs w0 =
     (let (pods, err) = Pods_List cs [] ListOptions_zero;
          w = send (ListRequest Pods [] ListOptions_zero) w0
      in case err of
           Some e \<Rightarrow>
             Printf (''Pod'lar'' @ dotless_i @ '' listelerken '' @ hata_olustu @ '': ''
                       @ err_Error e @ ''\<newline>'') w
         | None \<Rightarrow>
             Printf (''Cluster'da '' @ fmt_d (length (Items pods)) @ '' pod var\<newline>'') w)"

definition checkNamespaces :: "clientset \<Rightarrow> world \<Rightarrow> world" where
  "checkNamespaces cs w0 =
     (let (namespaces, err) = Namespaces_List cs ListOptions_zero;
          w = send (ListRequest Namespaces [] ListOptions_zero) w0
      in case err of
           Some e \<Rightarrow>
             Printf (''Namespace'leri listelerken '' @ hata_olustu @ '': ''
                       @ err_Error e @ ''\<newline>'') w
         | None \<Rightarrow>
             Printf (''Cluster'da '' @ fmt_d (length (Items namespaces))
                       @ '' namespace var\<newline>'') w)"

definition checkNodes :: "clientset \<Rightarrow> world \<Rightarrow> world" where
  "checkNodes cs w0 =
     (let (nodes, err) = Nodes_List cs ListOptions_zero;
          w = send (ListRequest Nodes [] ListOptions_zero) w0
      in case err of
           Some e \<Rightarrow>
             Printf (''Node'lar'' @ dotless_i @ '' listelerken '' @ hata_olustu @ '': ''
                       @ err_Error e @ ''\<newline>'') w
         | None \<Rightarrow>
             if length (Items nodes) = 0
             then Println (NoNodesInKubernetes_Error NoNodesInKubernetes) w
             else Printf (''Cluster'da '' @ fmt_d (length (Items nodes))
                            @ '' node var\<newline>'') w)"

definition checkEvents :: "clientset \<Rightarrow> world \<Rightarrow> world" where
  "checkEvents cs w0 =
     (let (events, err) = Events_List cs [] ListOptions_zero;
          w = send (ListRequest Events [] ListOptions_zero) w0
      in case err of
           Some e \<Rightarrow>
             Printf (''Event'leri listelerken '' @ hata_olustu @ '': ''
                       @ err_Error e @ ''\<newline>'') w
         | None \<Rightarrow>
             Printf (''Son 1 saatte '' @ fmt_d (length (Items events))
                       @ '' event var\<newline>'') w)"

text \<open>The body of the \<^verbatim>\<open>range\<close> loop of lines 120 to 126, item by item.\<close>

fun pvc_range :: "PersistentVolumeClaim list \<Rightarrow> world \<Rightarrow> world" where
  "pvc_range [] w = w"
| "pvc_range (p # rest) w =
     (let expectedPhase = ClaimBound
      in if pvc_Phase (pvc_Status p) \<noteq> expectedPhase
         then pvc_range rest
                (Println (PersistentVolumeClaimNotInStatus_Error
                            \<lparr>pvc = p, pvcStatusPhase = expectedPhase\<rparr>) w)
         else pvc_range rest w)"

definition checkPersistentVolumeClaims :: "clientset \<Rightarrow> world \<Rightarrow> world" where
  "checkPersistentVolumeClaims cs w0 =
     (let (pvcs, err) = PersistentVolumeClaims_List cs [] ListOptions_zero;
          w = send (ListRequest PersistentVolumeClaims [] ListOptions_zero) w0
      in case err of
           Some e \<Rightarrow>
             Printf (''PersistentVolumeClaim'leri listelerken '' @ hata_olustu @ '': ''
                       @ err_Error e @ ''\<newline>'') w
         | None \<Rightarrow>
             pvc_range (Items pvcs)
               (Printf (''Cluster'da '' @ fmt_d (length (Items pvcs))
                          @ '' PersistentVolumeClaim var\<newline>'') w))"

subsection \<open>The get query (lines 129 to 143)\<close>

definition checkSpecificPod :: "clientset \<Rightarrow> string \<Rightarrow> string \<Rightarrow> world \<Rightarrow> world" where
  "checkSpecificPod cs namespace podName w0 =
     (let (pod, err) = Pods_Get cs namespace podName GetOptions_zero;
          w = send (GetRequest Pods namespace podName GetOptions_zero) w0
      in if IsNotFound err
         then Printf (''Pod '' @ podName @ '' namespace '' @ namespace @ '' '' @ icinde
                        @ '' bulunamad'' @ dotless_i @ ''\<newline>'') w
         else case asStatusError err of
           Some statusError \<Rightarrow>
             Printf (''Pod '' @ podName @ '' namespace '' @ namespace @ '' '' @ icinde
                       @ '' al'' @ dotless_i @ ''nan hata: '' @ Message statusError
                       @ ''\<newline>'') w
         | None \<Rightarrow>
             (case err of
                Some e \<Rightarrow>
                  Printf (''Pod bilgisi al'' @ dotless_i @ ''n'' @ dotless_i @ ''rken ''
                            @ hata_olustu @ '': '' @ err_Error e @ ''\<newline>'') w
              | None \<Rightarrow>
                  (let w = Printf (''Pod '' @ podName @ '' namespace '' @ namespace @ '' ''
                                     @ icinde @ '' bulundu\<newline>'') w;
                       w = Printf (''Pod durumu: '' @ Phase (Status pod) @ ''\<newline>'') w;
                       w = Printf (''Pod IP: '' @ PodIP (Status pod) @ ''\<newline>'') w
                   in Printf (''Node: '' @ NodeName (Spec pod) @ ''\<newline>'') w)))"

subsection \<open>\<^verbatim>\<open>main\<close> (lines 35 to 70)\<close>

text \<open>The body of the \<^verbatim>\<open>for\<close> loop, lines 55 to 68.\<close>

definition iteration :: "clientset \<Rightarrow> world \<Rightarrow> world" where
  "iteration cs w0 =
     (let w = Println ''Cluster Durumu:'' w0;
          w = checkPods cs w;
          w = checkNamespaces cs w;
          w = checkNodes cs w;
          w = checkEvents cs w;
          w = checkPersistentVolumeClaims cs w;
          w = Println (''\<newline>Detayl'' @ dotless_i @ '' pod kontrol'' @ u_umlaut @ '':'') w;
          namespace = ''default'';
          pod = ''alpine-deployment-548dbddc9b-dnq9r'';
          w = checkSpecificPod cs namespace pod w;
          w = Println ''\<newline>-----------------------------------'' w
      in Sleep 10 w)"

text \<open>
  The loop has no exit, so the program never returns from it. What can be observed is
  the world after any number \<open>n\<close> of iterations.
\<close>

fun loop :: "nat \<Rightarrow> clientset \<Rightarrow> world \<Rightarrow> world" where
  "loop 0 cs w = w"
| "loop (Suc n) cs w = loop n cs (iteration cs w)"

text \<open>
  What \<^verbatim>\<open>main\<close> gets from outside: the home directory, \<^verbatim>\<open>filepath.Join\<close>, the
  result of \<^verbatim>\<open>flag.Parse\<close> (the package exits the process by itself on a bad command
  line, \<open>Inl\<close> of the exit code; otherwise the value given for \<^verbatim>\<open>-kubeconfig\<close>, if
  one was given), and the two constructors of the client library with their Go result
  pairs.
\<close>

record 'cfg env =
  HomeDir :: string
  Join :: "string list \<Rightarrow> string"
  flag_Parse :: "int + string option"
  BuildConfigFromFlags :: "string \<Rightarrow> string \<Rightarrow> 'cfg \<times> go_error option"
  NewForConfig :: "'cfg \<Rightarrow> clientset \<times> go_error option"

text \<open>
  How the process stands: exited by the flag package, stopped by \<^verbatim>\<open>panic\<close> with its
  message, or in the loop, with the world after the iterations observed.
\<close>

datatype outcome = Exited int world | Panicked string world | Running world

definition boot :: "boot_call \<Rightarrow> world \<Rightarrow> world" where
  "boot c w = w\<lparr>bootstrap := bootstrap w @ [c]\<rparr>"

text \<open>Lines 36 to 41: the default of the flag \<^verbatim>\<open>-kubeconfig\<close>.\<close>

definition kubeconfigDefault :: "'cfg env \<Rightarrow> string" where
  "kubeconfigDefault env =
     (if HomeDir env \<noteq> [] then Join env [HomeDir env, ''.kube'', ''config''] else [])"

definition main :: "'cfg env \<Rightarrow> nat \<Rightarrow> outcome" where
  "main env n =
     (case flag_Parse env of
        Inl code \<Rightarrow> Exited code world0
      | Inr given \<Rightarrow>
          (let kubeconfig = (case given of None \<Rightarrow> kubeconfigDefault env | Some v \<Rightarrow> v);
               (config, err) = BuildConfigFromFlags env [] kubeconfig;
               w = boot (CallBuildConfigFromFlags [] kubeconfig) world0
           in case err of
                Some e \<Rightarrow> Panicked (err_Error e) w
              | None \<Rightarrow>
                  (let (clientset, err) = NewForConfig env config;
                       w = boot CallNewForConfig w
                   in case err of
                        Some e \<Rightarrow> Panicked (err_Error e) w
                      | None \<Rightarrow> Running (loop n clientset w))))"

fun outcome_world :: "outcome \<Rightarrow> world" where
  "outcome_world (Exited code w) = w"
| "outcome_world (Panicked msg w) = w"
| "outcome_world (Running w) = w"

subsection \<open>Vocabulary of the properties\<close>

text \<open>The six requests of one iteration, in the order of lines 56 to 65.\<close>

definition iteration_requests :: "request list" where
  "iteration_requests =
     [ListRequest Pods [] ListOptions_zero,
      ListRequest Namespaces [] ListOptions_zero,
      ListRequest Nodes [] ListOptions_zero,
      ListRequest Events [] ListOptions_zero,
      ListRequest PersistentVolumeClaims [] ListOptions_zero,
      GetRequest Pods ''default'' ''alpine-deployment-548dbddc9b-dnq9r'' GetOptions_zero]"

text \<open>The report of one iteration: what it writes, started on an empty output.\<close>

definition report :: "clientset \<Rightarrow> string list" where
  "report cs = stdout (iteration cs world0)"

subsection \<open>Concrete inputs\<close>

definition pod_ex :: Pod where
  "pod_ex = \<lparr>pod_Name = ''alpine-deployment-548dbddc9b-dnq9r'',
             Status = \<lparr>Phase = ''Running'', PodIP = ''10.244.0.7''\<rparr>,
             Spec = \<lparr>NodeName = ''minikube''\<rparr>\<rparr>"

definition err_refused :: go_error where
  "err_refused = \<lparr>err_Error = ''connection refused'', err_IsNotFound = False,
                   err_StatusError = None\<rparr>"

definition err_forbidden :: go_error where
  "err_forbidden = \<lparr>err_Error = ''pods is forbidden'', err_IsNotFound = False,
                     err_StatusError = Some \<lparr>Message = ''pods is forbidden''\<rparr>\<rparr>"

text \<open>A not-found answer of the API server: a status error whose reason is not found.\<close>

definition err_notfound :: go_error where
  "err_notfound =
     \<lparr>err_Error = ''pods \"alpine-deployment-548dbddc9b-dnq9r\" not found'',
      err_IsNotFound = True,
      err_StatusError =
        Some \<lparr>Message = ''pods \"alpine-deployment-548dbddc9b-dnq9r\" not found''\<rparr>\<rparr>"

definition claim_ex :: "string \<Rightarrow> string \<Rightarrow> PersistentVolumeClaim" where
  "claim_ex n ph = \<lparr>Name = n, pvc_Status = \<lparr>pvc_Phase = ph\<rparr>\<rparr>"

definition event_ex :: "int \<Rightarrow> Event" where
  "event_ex t = \<lparr>ev_Name = ''ev'', LastTimestamp = t\<rparr>"

text \<open>
  The scenario of the spec: 3 pods, 2 namespaces, no node, 5 events, 2 claims of which
  one is bound and one pending; the pod asked for exists.
\<close>

definition cs_ok :: clientset where
  "cs_ok =
     \<lparr>Pods_List = (\<lambda>ns opts. (\<lparr>Items = [pod_ex, pod_ex, pod_ex]\<rparr>, None)),
      Namespaces_List =
        (\<lambda>opts. (\<lparr>Items = [\<lparr>ns_Name = ''default''\<rparr>, \<lparr>ns_Name = ''kube-system''\<rparr>]\<rparr>, None)),
      Nodes_List = (\<lambda>opts. (\<lparr>Items = []\<rparr>, None)),
      Events_List =
        (\<lambda>ns opts. (\<lparr>Items = [event_ex 0, event_ex 10, event_ex 20, event_ex 30,
                                event_ex 40]\<rparr>, None)),
      PersistentVolumeClaims_List =
        (\<lambda>ns opts. (\<lparr>Items = [claim_ex ''data'' ''Bound'', claim_ex ''logs'' ''Pending'']\<rparr>,
                     None)),
      Pods_Get = (\<lambda>ns n opts. (pod_ex, None))\<rparr>"

text \<open>The same cluster with one node.\<close>

definition cs_node :: clientset where
  "cs_node = cs_ok\<lparr>Nodes_List := (\<lambda>opts. (\<lparr>Items = [\<lparr>node_Name = ''minikube''\<rparr>]\<rparr>, None))\<rparr>"

text \<open>The same cluster with another answer to the get query.\<close>

definition cs_get :: "go_error \<Rightarrow> clientset" where
  "cs_get e = cs_ok\<lparr>Pods_Get := (\<lambda>ns n opts. (pod_ex, Some e))\<rparr>"

text \<open>
  A client that answers the six requests of an iteration as \<open>cs_ok\<close> does, and any
  other get request with a not-found error.
\<close>

definition cs_other :: clientset where
  "cs_other =
     cs_ok\<lparr>Pods_Get :=
             (\<lambda>ns n opts. if ns = ''default'' \<and> n = ''alpine-deployment-548dbddc9b-dnq9r''
                           then (pod_ex, None) else (pod_ex, Some err_notfound))\<rparr>"

text \<open>An API server that refuses every list query and does not know the pod.\<close>

definition cs_down :: clientset where
  "cs_down =
     \<lparr>Pods_List = (\<lambda>ns opts. (\<lparr>Items = []\<rparr>, Some err_refused)),
      Namespaces_List = (\<lambda>opts. (\<lparr>Items = []\<rparr>, Some err_refused)),
      Nodes_List = (\<lambda>opts. (\<lparr>Items = []\<rparr>, Some err_refused)),
      Events_List = (\<lambda>ns opts. (\<lparr>Items = []\<rparr>, Some err_refused)),
      PersistentVolumeClaims_List = (\<lambda>ns opts. (\<lparr>Items = []\<rparr>, Some err_refused)),
      Pods_Get = (\<lambda>ns n opts. (pod_ex, Some err_notfound))\<rparr>"

text \<open>Three environments: a bad configuration file, a client that cannot be built, a good one.\<close>

definition env_badconfig :: "unit env" where
  "env_badconfig =
     \<lparr>HomeDir = ''/root'', Join = (\<lambda>ps. ''/root/.kube/config''), flag_Parse = Inr None,
      BuildConfigFromFlags = (\<lambda>url path. ((), Some err_refused)),
      NewForConfig = (\<lambda>c. (cs_ok, None))\<rparr>"

definition env_badclient :: "unit env" where
  "env_badclient =
     \<lparr>HomeDir = ''/root'', Join = (\<lambda>ps. ''/root/.kube/config''), flag_Parse = Inr None,
      BuildConfigFromFlags = (\<lambda>url path. ((), None)),
      NewForConfig = (\<lambda>c. (cs_ok, Some err_refused))\<rparr>"

definition env_ok :: "unit env" where
  "env_ok =
     \<lparr>HomeDir = ''/root'', Join = (\<lambda>ps. ''/root/.kube/config''), flag_Parse = Inr None,
      BuildConfigFromFlags = (\<lambda>url path. ((), None)),
      NewForConfig = (\<lambda>c. (cs_ok, None))\<rparr>"

text \<open>A cluster that only counts the writes it receives.\<close>

definition count_writes :: "request \<Rightarrow> nat \<Rightarrow> nat" where
  "count_writes r c = (if is_write r then Suc c else c)"

section \<open>Properties\<close>

subsection \<open>What the primitive actions change\<close>

lemma send_fields [simp]:
  "stdout (send r w) = stdout w"
  "requests (send r w) = requests w @ [r]"
  "slept (send r w) = slept w"
  "bootstrap (send r w) = bootstrap w"
  by (simp_all add: send_def)

lemma Printf_fields [simp]:
  "stdout (Printf s w) = stdout w @ [s]"
  "requests (Printf s w) = requests w"
  "slept (Printf s w) = slept w"
  "bootstrap (Printf s w) = bootstrap w"
  by (simp_all add: Printf_def)

lemma Println_fields [simp]:
  "stdout (Println s w) = stdout w @ [s @ ''\<newline>'']"
  "requests (Println s w) = requests w"
  "slept (Println s w) = slept w"
  "bootstrap (Println s w) = bootstrap w"
  by (simp_all add: Println_def)

lemma Sleep_fields [simp]:
  "stdout (Sleep k w) = stdout w"
  "requests (Sleep k w) = requests w"
  "slept (Sleep k w) = slept w + k"
  "bootstrap (Sleep k w) = bootstrap w"
  by (simp_all add: Sleep_def)

lemma boot_fields [simp]:
  "stdout (boot c w) = stdout w"
  "requests (boot c w) = requests w"
  "slept (boot c w) = slept w"
  "bootstrap (boot c w) = bootstrap w @ [c]"
  by (simp_all add: boot_def)

lemma world0_fields [simp]:
  "stdout world0 = []" "requests world0 = []" "slept world0 = 0" "bootstrap world0 = []"
  by (simp_all add: world0_def)

subsection \<open>Decimal numerals\<close>

lemma digit_val_digit: "d < 10 \<Longrightarrow> digit_val (digit d) = d"
  by (simp add: digit_val_def digit_def)

lemma read_d_snoc: "read_d (s @ [c]) = 10 * read_d s + digit_val c"
  by (simp add: read_d_def)

lemma read_d_fmt_d: "read_d (fmt_d n) = n"
proof (induction n rule: fmt_d.induct)
  case (1 n)
  show ?case
  proof (cases "n < 10")
    case True
    then show ?thesis
      by (simp add: fmt_d.simps [of n] read_d_def digit_val_digit)
  next
    case False
    with 1 show ?thesis
      by (simp add: fmt_d.simps [of n] read_d_snoc digit_val_digit)
  qed
qed

lemma fmt_d_eq_iff: "fmt_d m = fmt_d n \<longleftrightarrow> m = n"
proof
  assume "fmt_d m = fmt_d n"
  then have "read_d (fmt_d m) = read_d (fmt_d n)" by simp
  then show "m = n" by (simp add: read_d_fmt_d)
qed simp

lemma fmt_d_small:
  "fmt_d 0 = ''0''"
  "fmt_d (Suc 0) = ''1''"
  "fmt_d (Suc (Suc 0)) = ''2''"
  "fmt_d (Suc (Suc (Suc 0))) = ''3''"
  "fmt_d (Suc (Suc (Suc (Suc (Suc 0))))) = ''5''"
  "fmt_d 1 = ''1''"
  "fmt_d 2 = ''2''"
  "fmt_d 3 = ''3''"
  "fmt_d 5 = ''5''"
  by code_simp+

subsection \<open>Each query: the request it sends, the lines it writes\<close>

lemma checkPods_frame [simp]:
  "requests (checkPods cs w) = requests w @ [ListRequest Pods [] ListOptions_zero]"
  "slept (checkPods cs w) = slept w"
  "bootstrap (checkPods cs w) = bootstrap w"
  by (simp_all add: checkPods_def Let_def case_prod_beta split: option.splits)

lemma checkPods_stdout:
  "stdout (checkPods cs w) = stdout w @
     [case snd (Pods_List cs [] ListOptions_zero) of
        Some e \<Rightarrow> ''Pod'lar'' @ dotless_i @ '' listelerken '' @ hata_olustu @ '': ''
                    @ err_Error e @ ''\<newline>''
      | None \<Rightarrow> ''Cluster'da ''
                  @ fmt_d (length (Items (fst (Pods_List cs [] ListOptions_zero))))
                  @ '' pod var\<newline>'']"
  by (simp add: checkPods_def Let_def case_prod_beta split: option.splits)

lemma checkNamespaces_frame [simp]:
  "requests (checkNamespaces cs w) = requests w @ [ListRequest Namespaces [] ListOptions_zero]"
  "slept (checkNamespaces cs w) = slept w"
  "bootstrap (checkNamespaces cs w) = bootstrap w"
  by (simp_all add: checkNamespaces_def Let_def case_prod_beta split: option.splits)

lemma checkNamespaces_stdout:
  "stdout (checkNamespaces cs w) = stdout w @
     [case snd (Namespaces_List cs ListOptions_zero) of
        Some e \<Rightarrow> ''Namespace'leri listelerken '' @ hata_olustu @ '': ''
                    @ err_Error e @ ''\<newline>''
      | None \<Rightarrow> ''Cluster'da ''
                  @ fmt_d (length (Items (fst (Namespaces_List cs ListOptions_zero))))
                  @ '' namespace var\<newline>'']"
  by (simp add: checkNamespaces_def Let_def case_prod_beta split: option.splits)

lemma checkNodes_frame [simp]:
  "requests (checkNodes cs w) = requests w @ [ListRequest Nodes [] ListOptions_zero]"
  "slept (checkNodes cs w) = slept w"
  "bootstrap (checkNodes cs w) = bootstrap w"
  by (simp_all add: checkNodes_def Let_def case_prod_beta split: option.splits)

lemma checkNodes_stdout:
  "stdout (checkNodes cs w) = stdout w @
     [case snd (Nodes_List cs ListOptions_zero) of
        Some e \<Rightarrow> ''Node'lar'' @ dotless_i @ '' listelerken '' @ hata_olustu @ '': ''
                    @ err_Error e @ ''\<newline>''
      | None \<Rightarrow>
          if length (Items (fst (Nodes_List cs ListOptions_zero))) = 0
          then NoNodesInKubernetes_Error NoNodesInKubernetes @ ''\<newline>''
          else ''Cluster'da ''
                 @ fmt_d (length (Items (fst (Nodes_List cs ListOptions_zero))))
                 @ '' node var\<newline>'']"
  by (simp add: checkNodes_def Let_def case_prod_beta split: option.splits)

lemma checkEvents_frame [simp]:
  "requests (checkEvents cs w) = requests w @ [ListRequest Events [] ListOptions_zero]"
  "slept (checkEvents cs w) = slept w"
  "bootstrap (checkEvents cs w) = bootstrap w"
  by (simp_all add: checkEvents_def Let_def case_prod_beta split: option.splits)

lemma checkEvents_stdout:
  "stdout (checkEvents cs w) = stdout w @
     [case snd (Events_List cs [] ListOptions_zero) of
        Some e \<Rightarrow> ''Event'leri listelerken '' @ hata_olustu @ '': ''
                    @ err_Error e @ ''\<newline>''
      | None \<Rightarrow> ''Son 1 saatte ''
                  @ fmt_d (length (Items (fst (Events_List cs [] ListOptions_zero))))
                  @ '' event var\<newline>'']"
  by (simp add: checkEvents_def Let_def case_prod_beta split: option.splits)

lemma pvc_range_frame [simp]:
  "requests (pvc_range ps w) = requests w"
  "slept (pvc_range ps w) = slept w"
  "bootstrap (pvc_range ps w) = bootstrap w"
  by (induction ps arbitrary: w) simp_all

lemma pvc_range_stdout:
  "stdout (pvc_range ps w) = stdout w @
     map (\<lambda>p. ''PersistentVolumeClaim '' @ Name p @ '' beklenen '' @ ClaimBound
                @ '' durumunda de'' @ g_breve @ ''il\<newline>'')
       (filter (\<lambda>p. pvc_Phase (pvc_Status p) \<noteq> ClaimBound) ps)"
  by (induction ps arbitrary: w)
    (simp_all add: PersistentVolumeClaimNotInStatus_Error_def)

lemma checkPersistentVolumeClaims_frame [simp]:
  "requests (checkPersistentVolumeClaims cs w) =
     requests w @ [ListRequest PersistentVolumeClaims [] ListOptions_zero]"
  "slept (checkPersistentVolumeClaims cs w) = slept w"
  "bootstrap (checkPersistentVolumeClaims cs w) = bootstrap w"
  by (simp_all add: checkPersistentVolumeClaims_def Let_def case_prod_beta
      split: option.splits)

lemma checkPersistentVolumeClaims_stdout:
  "stdout (checkPersistentVolumeClaims cs w) = stdout w @
     (case snd (PersistentVolumeClaims_List cs [] ListOptions_zero) of
        Some e \<Rightarrow> [''PersistentVolumeClaim'leri listelerken '' @ hata_olustu @ '': ''
                     @ err_Error e @ ''\<newline>'']
      | None \<Rightarrow>
          (''Cluster'da ''
             @ fmt_d (length (Items (fst (PersistentVolumeClaims_List cs [] ListOptions_zero))))
             @ '' PersistentVolumeClaim var\<newline>'')
          # map (\<lambda>p. ''PersistentVolumeClaim '' @ Name p @ '' beklenen '' @ ClaimBound
                       @ '' durumunda de'' @ g_breve @ ''il\<newline>'')
              (filter (\<lambda>p. pvc_Phase (pvc_Status p) \<noteq> ClaimBound)
                 (Items (fst (PersistentVolumeClaims_List cs [] ListOptions_zero)))))"
  by (simp add: checkPersistentVolumeClaims_def Let_def case_prod_beta pvc_range_stdout
      split: option.splits)

lemma checkSpecificPod_frame [simp]:
  "requests (checkSpecificPod cs namespace podName w) =
     requests w @ [GetRequest Pods namespace podName GetOptions_zero]"
  "slept (checkSpecificPod cs namespace podName w) = slept w"
  "bootstrap (checkSpecificPod cs namespace podName w) = bootstrap w"
  by (simp_all add: checkSpecificPod_def Let_def case_prod_beta split: option.splits)

lemma checkSpecificPod_stdout:
  "stdout (checkSpecificPod cs namespace podName w) = stdout w @
     (if IsNotFound (snd (Pods_Get cs namespace podName GetOptions_zero))
      then [''Pod '' @ podName @ '' namespace '' @ namespace @ '' '' @ icinde
              @ '' bulunamad'' @ dotless_i @ ''\<newline>'']
      else case asStatusError (snd (Pods_Get cs namespace podName GetOptions_zero)) of
        Some statusError \<Rightarrow>
          [''Pod '' @ podName @ '' namespace '' @ namespace @ '' '' @ icinde
             @ '' al'' @ dotless_i @ ''nan hata: '' @ Message statusError @ ''\<newline>'']
      | None \<Rightarrow>
          (case snd (Pods_Get cs namespace podName GetOptions_zero) of
             Some e \<Rightarrow>
               [''Pod bilgisi al'' @ dotless_i @ ''n'' @ dotless_i @ ''rken '' @ hata_olustu
                  @ '': '' @ err_Error e @ ''\<newline>'']
           | None \<Rightarrow>
               [''Pod '' @ podName @ '' namespace '' @ namespace @ '' '' @ icinde
                  @ '' bulundu\<newline>'',
                ''Pod durumu: ''
                  @ Phase (Status (fst (Pods_Get cs namespace podName GetOptions_zero)))
                  @ ''\<newline>'',
                ''Pod IP: ''
                  @ PodIP (Status (fst (Pods_Get cs namespace podName GetOptions_zero)))
                  @ ''\<newline>'',
                ''Node: ''
                  @ NodeName (Spec (fst (Pods_Get cs namespace podName GetOptions_zero)))
                  @ ''\<newline>'']))"
  by (simp add: checkSpecificPod_def Let_def case_prod_beta split: option.splits)

subsection \<open>One iteration, and any number of them\<close>

lemma iteration_frame [simp]:
  "requests (iteration cs w) = requests w @ iteration_requests"
  "slept (iteration cs w) = slept w + 10"
  "bootstrap (iteration cs w) = bootstrap w"
  by (simp_all add: iteration_def Let_def iteration_requests_def)

lemma iteration_stdout:
  "stdout (iteration cs w) = stdout w @
     [''Cluster Durumu:\<newline>'']
     @ stdout (checkPods cs world0)
     @ stdout (checkNamespaces cs world0)
     @ stdout (checkNodes cs world0)
     @ stdout (checkEvents cs world0)
     @ stdout (checkPersistentVolumeClaims cs world0)
     @ [''\<newline>Detayl'' @ dotless_i @ '' pod kontrol'' @ u_umlaut @ '':\<newline>'']
     @ stdout (checkSpecificPod cs ''default'' ''alpine-deployment-548dbddc9b-dnq9r'' world0)
     @ [''\<newline>-----------------------------------\<newline>'']"
  by (simp add: iteration_def Let_def checkPods_stdout checkNamespaces_stdout
      checkNodes_stdout checkEvents_stdout checkPersistentVolumeClaims_stdout
      checkSpecificPod_stdout)

lemma iteration_report: "stdout (iteration cs w) = stdout w @ report cs"
  by (simp add: report_def iteration_stdout [of cs w] iteration_stdout [of cs world0])

lemma loop_frame [simp]:
  "requests (loop n cs w) = requests w @ concat (replicate n iteration_requests)"
  "slept (loop n cs w) = slept w + 10 * n"
  "bootstrap (loop n cs w) = bootstrap w"
  by (induction n arbitrary: w) simp_all

lemma loop_stdout: "stdout (loop n cs w) = stdout w @ concat (replicate n (report cs))"
  by (induction n arbitrary: w) (simp_all add: iteration_report)

lemma iteration_requests_reads:
  "r \<in> set iteration_requests \<Longrightarrow> is_list_or_get r \<and> \<not> is_write r"
  by (auto simp add: iteration_requests_def)

lemma main_requests:
  "requests (outcome_world (main env n)) = []
   \<or> requests (outcome_world (main env n)) = concat (replicate n iteration_requests)"
  by (simp add: main_def Let_def case_prod_beta split: sum.splits option.splits)

section \<open>The claims\<close>

subsection \<open>The counters\<close>

text \<open>
  C1. For the counters of pods, namespaces, events and persistent volume claims: when
  the list operation succeeds (its error is nil) and returns N items, the counter writes
  its count line with N printed in decimal. For the claims the count line is the first
  line written, before any line about a single claim. The decimal numeral printed reads
  back as N, so the count reported is exactly N.
\<close>

theorem counters_report_item_count:
  "(snd (Pods_List cs [] ListOptions_zero) = None \<longrightarrow>
      stdout (checkPods cs w) = stdout w @
        [''Cluster'da '' @ fmt_d (length (Items (fst (Pods_List cs [] ListOptions_zero))))
           @ '' pod var\<newline>''])
   \<and> (snd (Namespaces_List cs ListOptions_zero) = None \<longrightarrow>
      stdout (checkNamespaces cs w) = stdout w @
        [''Cluster'da '' @ fmt_d (length (Items (fst (Namespaces_List cs ListOptions_zero))))
           @ '' namespace var\<newline>''])
   \<and> (snd (Events_List cs [] ListOptions_zero) = None \<longrightarrow>
      stdout (checkEvents cs w) = stdout w @
        [''Son 1 saatte '' @ fmt_d (length (Items (fst (Events_List cs [] ListOptions_zero))))
           @ '' event var\<newline>''])
   \<and> (snd (PersistentVolumeClaims_List cs [] ListOptions_zero) = None \<longrightarrow>
      take (Suc (length (stdout w))) (stdout (checkPersistentVolumeClaims cs w)) = stdout w @
        [''Cluster'da ''
           @ fmt_d (length (Items (fst (PersistentVolumeClaims_List cs [] ListOptions_zero))))
           @ '' PersistentVolumeClaim var\<newline>''])
   \<and> read_d (fmt_d N) = N"
  by (simp add: checkPods_stdout checkNamespaces_stdout checkEvents_stdout
      checkPersistentVolumeClaims_stdout read_d_fmt_d)

theorem counters_report_item_count_witness:
  "snd (Pods_List cs_ok [] ListOptions_zero) = None
   \<and> stdout (checkPods cs_ok world0) = [''Cluster'da 3 pod var\<newline>'']
   \<and> snd (Namespaces_List cs_ok ListOptions_zero) = None
   \<and> stdout (checkNamespaces cs_ok world0) = [''Cluster'da 2 namespace var\<newline>'']
   \<and> snd (Events_List cs_ok [] ListOptions_zero) = None
   \<and> stdout (checkEvents cs_ok world0) = [''Son 1 saatte 5 event var\<newline>'']
   \<and> snd (PersistentVolumeClaims_List cs_ok [] ListOptions_zero) = None
   \<and> take 1 (stdout (checkPersistentVolumeClaims cs_ok world0)) =
       [''Cluster'da 2 PersistentVolumeClaim var\<newline>'']
   \<and> read_d (fmt_d 3) = 3"
  using counters_report_item_count [of cs_ok world0 3]
  by (simp add: cs_ok_def fmt_d_small)

text \<open>
  C4. The node counter, when the list operation succeeds: with no node it writes the
  message of \<open>NoNodesInKubernetes\<close>, which is not the numeric line of any number, so
  not the line "0 node"; with N \<ge> 1 nodes it writes the numeric line with N.
\<close>

theorem checkNodes_zero_is_distinguished:
  assumes "snd (Nodes_List cs ListOptions_zero) = None"
  shows "(length (Items (fst (Nodes_List cs ListOptions_zero))) = 0 \<longrightarrow>
            stdout (checkNodes cs w) = stdout w @
              [''Kubernetes cluster'' @ [CHR 0x27] @ dotless_i @ ''nda hi'' @ c_cedilla
                 @ '' node yok\<newline>'']
            \<and> (\<forall>n. stdout (checkNodes cs w) \<noteq> stdout w @
                  [''Cluster'da '' @ fmt_d n @ '' node var\<newline>'']))
       \<and> (1 \<le> length (Items (fst (Nodes_List cs ListOptions_zero))) \<longrightarrow>
            stdout (checkNodes cs w) = stdout w @
              [''Cluster'da '' @ fmt_d (length (Items (fst (Nodes_List cs ListOptions_zero))))
                 @ '' node var\<newline>''])"
  using assms by (simp add: checkNodes_stdout)

theorem checkNodes_zero_is_distinguished_witness:
  "snd (Nodes_List cs_ok ListOptions_zero) = None
   \<and> length (Items (fst (Nodes_List cs_ok ListOptions_zero))) = 0
   \<and> stdout (checkNodes cs_ok world0) =
       [''Kubernetes cluster'' @ [CHR 0x27] @ dotless_i @ ''nda hi'' @ c_cedilla
          @ '' node yok\<newline>'']
   \<and> stdout (checkNodes cs_ok world0) \<noteq> [''Cluster'da 0 node var\<newline>'']
   \<and> snd (Nodes_List cs_node ListOptions_zero) = None
   \<and> 1 \<le> length (Items (fst (Nodes_List cs_node ListOptions_zero)))
   \<and> stdout (checkNodes cs_node world0) = [''Cluster'da 1 node var\<newline>'']"
proof -
  have ok: "snd (Nodes_List cs_ok ListOptions_zero) = None"
    by (simp add: cs_ok_def)
  have node: "snd (Nodes_List cs_node ListOptions_zero) = None"
    by (simp add: cs_node_def cs_ok_def)
  have zero: "''Cluster'da 0 node var\<newline>'' = ''Cluster'da '' @ fmt_d 0 @ '' node var\<newline>''"
    by (simp add: fmt_d_small)
  show ?thesis
    using checkNodes_zero_is_distinguished [OF ok, of world0]
      checkNodes_zero_is_distinguished [OF node, of world0]
    unfolding zero
    by (simp add: cs_ok_def cs_node_def fmt_d_small)
qed

text \<open>
  C6. The events counter sends the list request for every namespace with the zero
  \<open>ListOptions\<close> (no selector, no limit), and when it succeeds the count it writes
  under the words "Son 1 saatte" (in the last hour) is the number of all items returned.
  Whatever window of time is taken, as soon as one returned event lies outside it the
  number printed is not the number of events inside the window.
\<close>

theorem checkEvents_counts_all_events:
  assumes "snd (Events_List cs [] ListOptions_zero) = None"
  shows "requests (checkEvents cs w) = requests w @
           [ListRequest Events []
              \<lparr>LabelSelector = [], FieldSelector = [], Limit = 0, Continue = []\<rparr>]
       \<and> stdout (checkEvents cs w) = stdout w @
           [''Son 1 saatte '' @ fmt_d (length (Items (fst (Events_List cs [] ListOptions_zero))))
              @ '' event var\<newline>'']
       \<and> ((\<exists>ev \<in> set (Items (fst (Events_List cs [] ListOptions_zero))). \<not> in_window ev) \<longrightarrow>
            fmt_d (length (Items (fst (Events_List cs [] ListOptions_zero)))) \<noteq>
            fmt_d (length (filter in_window
                             (Items (fst (Events_List cs [] ListOptions_zero))))))"
proof -
  let ?items = "Items (fst (Events_List cs [] ListOptions_zero))"
  have "fmt_d (length ?items) \<noteq> fmt_d (length (filter in_window ?items))"
    if "\<exists>ev \<in> set ?items. \<not> in_window ev"
  proof -
    from that obtain ev where "ev \<in> set ?items" and "\<not> in_window ev"
      by blast
    then have "length (filter in_window ?items) < length ?items"
      by (rule length_filter_less)
    then show ?thesis
      by (simp add: fmt_d_eq_iff)
  qed
  then have "(\<exists>ev \<in> set ?items. \<not> in_window ev) \<longrightarrow>
      fmt_d (length ?items) \<noteq> fmt_d (length (filter in_window ?items))"
    by blast
  moreover have "requests (checkEvents cs w) = requests w @
      [ListRequest Events []
         \<lparr>LabelSelector = [], FieldSelector = [], Limit = 0, Continue = []\<rparr>]"
    by (simp add: ListOptions_zero_def)
  moreover have "stdout (checkEvents cs w) = stdout w @
      [''Son 1 saatte '' @ fmt_d (length ?items) @ '' event var\<newline>'']"
    using assms by (simp add: checkEvents_stdout)
  ultimately show ?thesis by blast
qed

theorem checkEvents_counts_all_events_witness:
  "snd (Events_List cs_ok [] ListOptions_zero) = None
   \<and> stdout (checkEvents cs_ok world0) = [''Son 1 saatte 5 event var\<newline>'']
   \<and> event_ex 0 \<in> set (Items (fst (Events_List cs_ok [] ListOptions_zero)))
   \<and> \<not> (100000 - 3600 \<le> LastTimestamp (event_ex 0))
   \<and> filter (\<lambda>ev. 100000 - 3600 \<le> LastTimestamp ev)
        (Items (fst (Events_List cs_ok [] ListOptions_zero))) = []
   \<and> fmt_d 5 \<noteq> fmt_d 0"
proof -
  have ok: "snd (Events_List cs_ok [] ListOptions_zero) = None"
    by (simp add: cs_ok_def)
  show ?thesis
    using checkEvents_counts_all_events
      [OF ok, of world0 "\<lambda>ev. 100000 - 3600 \<le> LastTimestamp ev"]
    by (simp add: cs_ok_def event_ex_def fmt_d_small)
qed

subsection \<open>The volume claim auditor\<close>

text \<open>
  C2. When the list of claims is returned, the auditor writes the count line with the
  length of the whole list, then one line for each claim whose phase is not
  \<open>ClaimBound\<close>, in the order of the list, naming the claim and the expected phase;
  a claim whose phase is \<open>ClaimBound\<close> gets no line. So the number of lines written
  is one more than the number of claims that are not bound.
\<close>

theorem checkPersistentVolumeClaims_lines:
  assumes "snd (PersistentVolumeClaims_List cs [] ListOptions_zero) = None"
  shows "stdout (checkPersistentVolumeClaims cs w) = stdout w @
           [''Cluster'da ''
              @ fmt_d (length (Items (fst (PersistentVolumeClaims_List cs [] ListOptions_zero))))
              @ '' PersistentVolumeClaim var\<newline>'']
           @ map (\<lambda>p. ''PersistentVolumeClaim '' @ Name p @ '' beklenen '' @ ClaimBound
                        @ '' durumunda de'' @ g_breve @ ''il\<newline>'')
               (filter (\<lambda>p. pvc_Phase (pvc_Status p) \<noteq> ClaimBound)
                  (Items (fst (PersistentVolumeClaims_List cs [] ListOptions_zero))))
       \<and> length (stdout (checkPersistentVolumeClaims cs w)) =
           length (stdout w) + 1
           + length (filter (\<lambda>p. pvc_Phase (pvc_Status p) \<noteq> ClaimBound)
                       (Items (fst (PersistentVolumeClaims_List cs [] ListOptions_zero))))"
  using assms by (simp add: checkPersistentVolumeClaims_stdout)

theorem checkPersistentVolumeClaims_lines_witness:
  "snd (PersistentVolumeClaims_List cs_ok [] ListOptions_zero) = None
   \<and> stdout (checkPersistentVolumeClaims cs_ok world0) =
       [''Cluster'da 2 PersistentVolumeClaim var\<newline>'',
        ''PersistentVolumeClaim logs beklenen Bound durumunda de'' @ g_breve @ ''il\<newline>'']"
proof -
  have ok: "snd (PersistentVolumeClaims_List cs_ok [] ListOptions_zero) = None"
    by (simp add: cs_ok_def)
  show ?thesis
    using checkPersistentVolumeClaims_lines [OF ok, of world0]
    by (simp add: cs_ok_def claim_ex_def ClaimBound_def fmt_d_small)
qed

subsection \<open>The inspector of one pod\<close>

text \<open>
  C3. The four outcomes of the get request, in the order in which lines 131 to 137 test
  them, each with its own output: (1) the error is a not-found error: one line, the
  not-found message with the pod name and the namespace; (2) otherwise the error is a
  \<open>*errors.StatusError\<close>: one line with the message of its status, as the server gave
  it; (3) otherwise the error is not nil: one line, the generic message with the text of
  the error; (4) the error is nil: four lines (found, phase, address, node) with the
  values of the pod returned. This holds for every namespace and pod name, so for the
  fixed pair of \<open>main\<close>.
\<close>

theorem checkSpecificPod_outcomes:
  "(IsNotFound (snd (Pods_Get cs namespace podName GetOptions_zero)) \<longrightarrow>
      stdout (checkSpecificPod cs namespace podName w) = stdout w @
        [''Pod '' @ podName @ '' namespace '' @ namespace @ '' '' @ icinde
           @ '' bulunamad'' @ dotless_i @ ''\<newline>''])
   \<and> (\<not> IsNotFound (snd (Pods_Get cs namespace podName GetOptions_zero))
        \<and> asStatusError (snd (Pods_Get cs namespace podName GetOptions_zero))
            = Some statusError \<longrightarrow>
      stdout (checkSpecificPod cs namespace podName w) = stdout w @
        [''Pod '' @ podName @ '' namespace '' @ namespace @ '' '' @ icinde
           @ '' al'' @ dotless_i @ ''nan hata: '' @ Message statusError @ ''\<newline>''])
   \<and> (\<not> IsNotFound (snd (Pods_Get cs namespace podName GetOptions_zero))
        \<and> asStatusError (snd (Pods_Get cs namespace podName GetOptions_zero)) = None
        \<and> snd (Pods_Get cs namespace podName GetOptions_zero) = Some e \<longrightarrow>
      stdout (checkSpecificPod cs namespace podName w) = stdout w @
        [''Pod bilgisi al'' @ dotless_i @ ''n'' @ dotless_i @ ''rken '' @ hata_olustu
           @ '': '' @ err_Error e @ ''\<newline>''])
   \<and> (snd (Pods_Get cs namespace podName GetOptions_zero) = None \<longrightarrow>
      stdout (checkSpecificPod cs namespace podName w) = stdout w @
        [''Pod '' @ podName @ '' namespace '' @ namespace @ '' '' @ icinde
           @ '' bulundu\<newline>'',
         ''Pod durumu: ''
           @ Phase (Status (fst (Pods_Get cs namespace podName GetOptions_zero)))
           @ ''\<newline>'',
         ''Pod IP: ''
           @ PodIP (Status (fst (Pods_Get cs namespace podName GetOptions_zero)))
           @ ''\<newline>'',
         ''Node: ''
           @ NodeName (Spec (fst (Pods_Get cs namespace podName GetOptions_zero)))
           @ ''\<newline>''])"
  by (auto simp add: checkSpecificPod_stdout IsNotFound_def asStatusError_def
      split: option.splits)

theorem checkSpecificPod_outcomes_witness:
  "IsNotFound (snd (Pods_Get (cs_get err_notfound) ''default''
                      ''alpine-deployment-548dbddc9b-dnq9r'' GetOptions_zero))
   \<and> stdout (checkSpecificPod (cs_get err_notfound) ''default''
                ''alpine-deployment-548dbddc9b-dnq9r'' world0) =
       [''Pod alpine-deployment-548dbddc9b-dnq9r namespace default '' @ icinde
          @ '' bulunamad'' @ dotless_i @ ''\<newline>'']
   \<and> \<not> IsNotFound (snd (Pods_Get (cs_get err_forbidden) ''default''
                          ''alpine-deployment-548dbddc9b-dnq9r'' GetOptions_zero))
   \<and> asStatusError (snd (Pods_Get (cs_get err_forbidden) ''default''
                            ''alpine-deployment-548dbddc9b-dnq9r'' GetOptions_zero))
       = Some \<lparr>Message = ''pods is forbidden''\<rparr>
   \<and> stdout (checkSpecificPod (cs_get err_forbidden) ''default''
                ''alpine-deployment-548dbddc9b-dnq9r'' world0) =
       [''Pod alpine-deployment-548dbddc9b-dnq9r namespace default '' @ icinde
          @ '' al'' @ dotless_i @ ''nan hata: pods is forbidden\<newline>'']
   \<and> \<not> IsNotFound (snd (Pods_Get (cs_get err_refused) ''default''
                          ''alpine-deployment-548dbddc9b-dnq9r'' GetOptions_zero))
   \<and> asStatusError (snd (Pods_Get (cs_get err_refused) ''default''
                            ''alpine-deployment-548dbddc9b-dnq9r'' GetOptions_zero)) = None
   \<and> snd (Pods_Get (cs_get err_refused) ''default''
             ''alpine-deployment-548dbddc9b-dnq9r'' GetOptions_zero) = Some err_refused
   \<and> stdout (checkSpecificPod (cs_get err_refused) ''default''
                ''alpine-deployment-548dbddc9b-dnq9r'' world0) =
       [''Pod bilgisi al'' @ dotless_i @ ''n'' @ dotless_i @ ''rken '' @ hata_olustu
          @ '': connection refused\<newline>'']
   \<and> snd (Pods_Get cs_ok ''default'' ''alpine-deployment-548dbddc9b-dnq9r''
             GetOptions_zero) = None
   \<and> stdout (checkSpecificPod cs_ok ''default'' ''alpine-deployment-548dbddc9b-dnq9r''
                world0) =
       [''Pod alpine-deployment-548dbddc9b-dnq9r namespace default '' @ icinde
          @ '' bulundu\<newline>'',
        ''Pod durumu: Running\<newline>'',
        ''Pod IP: 10.244.0.7\<newline>'',
        ''Node: minikube\<newline>'']"
  using
    checkSpecificPod_outcomes [where cs = "cs_get err_notfound" and namespace = "''default''"
      and podName = "''alpine-deployment-548dbddc9b-dnq9r''" and w = world0
      and statusError = "\<lparr>Message = ''pods is forbidden''\<rparr>" and e = err_refused]
    checkSpecificPod_outcomes [where cs = "cs_get err_forbidden" and namespace = "''default''"
      and podName = "''alpine-deployment-548dbddc9b-dnq9r''" and w = world0
      and statusError = "\<lparr>Message = ''pods is forbidden''\<rparr>" and e = err_refused]
    checkSpecificPod_outcomes [where cs = "cs_get err_refused" and namespace = "''default''"
      and podName = "''alpine-deployment-548dbddc9b-dnq9r''" and w = world0
      and statusError = "\<lparr>Message = ''pods is forbidden''\<rparr>" and e = err_refused]
    checkSpecificPod_outcomes [where cs = cs_ok and namespace = "''default''"
      and podName = "''alpine-deployment-548dbddc9b-dnq9r''" and w = world0
      and statusError = "\<lparr>Message = ''pods is forbidden''\<rparr>" and e = err_refused]
  by (simp add: cs_get_def cs_ok_def pod_ex_def err_notfound_def err_forbidden_def
      err_refused_def IsNotFound_def asStatusError_def)

text \<open>
  C10. The not-found test comes first. An error that is both a not-found error and a
  \<open>*errors.StatusError\<close> gets the not-found line only. For the pod name of \<open>main\<close>,
  the output of the inspector is the line of the structured error (with whatever
  message) exactly when the error is a \<open>*errors.StatusError\<close> and is not a not-found
  error.
\<close>

theorem not_found_precedes_status_error:
  assumes "snd (Pods_Get cs namespace ''alpine-deployment-548dbddc9b-dnq9r'' GetOptions_zero)
             = Some e"
  shows "(IsNotFound (Some e) \<and> asStatusError (Some e) = Some statusError \<longrightarrow>
            stdout (checkSpecificPod cs namespace ''alpine-deployment-548dbddc9b-dnq9r'' w)
              = stdout w @
                [''Pod alpine-deployment-548dbddc9b-dnq9r namespace '' @ namespace @ '' ''
                   @ icinde @ '' bulunamad'' @ dotless_i @ ''\<newline>''])
       \<and> ((\<exists>m. stdout (checkSpecificPod cs namespace
                           ''alpine-deployment-548dbddc9b-dnq9r'' w)
                  = stdout w @
                    [''Pod alpine-deployment-548dbddc9b-dnq9r namespace '' @ namespace
                       @ '' '' @ icinde @ '' al'' @ dotless_i @ ''nan hata: '' @ m
                       @ ''\<newline>''])
            \<longleftrightarrow> (asStatusError (Some e) \<noteq> None \<and> \<not> IsNotFound (Some e)))"
proof (cases "err_IsNotFound e")
  case True
  with assms show ?thesis
    by (simp add: checkSpecificPod_stdout IsNotFound_def asStatusError_def icinde_def)
next
  case notfound: False
  show ?thesis
  proof (cases "err_StatusError e")
    case None
    with assms notfound show ?thesis
      by (simp add: checkSpecificPod_stdout IsNotFound_def asStatusError_def)
  next
    case (Some st)
    with assms notfound show ?thesis
      by (simp add: checkSpecificPod_stdout IsNotFound_def asStatusError_def)
  qed
qed

theorem not_found_precedes_status_error_witness:
  "snd (Pods_Get cs_down ''default'' ''alpine-deployment-548dbddc9b-dnq9r'' GetOptions_zero)
     = Some err_notfound
   \<and> IsNotFound (Some err_notfound)
   \<and> asStatusError (Some err_notfound)
       = Some \<lparr>Message = ''pods \"alpine-deployment-548dbddc9b-dnq9r\" not found''\<rparr>
   \<and> stdout (checkSpecificPod cs_down ''default'' ''alpine-deployment-548dbddc9b-dnq9r''
                world0) =
       [''Pod alpine-deployment-548dbddc9b-dnq9r namespace default '' @ icinde
          @ '' bulunamad'' @ dotless_i @ ''\<newline>'']"
proof -
  have get: "snd (Pods_Get cs_down ''default'' ''alpine-deployment-548dbddc9b-dnq9r''
                    GetOptions_zero) = Some err_notfound"
    by (simp add: cs_down_def)
  show ?thesis
    using get not_found_precedes_status_error [OF get,
        where w = world0 and statusError =
          "\<lparr>Message = ''pods \"alpine-deployment-548dbddc9b-dnq9r\" not found''\<rparr>"]
    by (simp add: err_notfound_def IsNotFound_def asStatusError_def)
qed

subsection \<open>Failures inside an iteration\<close>

text \<open>
  C5, as the claim states it, fails for the get query: when the pod is not found the
  inspector writes its not-found line, which names the pod and the namespace and leaves
  the text of the error out.
\<close>

theorem not_found_line_lacks_error_text_counterexample:
  "snd (Pods_Get cs_down ''default'' ''alpine-deployment-548dbddc9b-dnq9r'' GetOptions_zero)
     = Some err_notfound
   \<and> stdout (checkSpecificPod cs_down ''default'' ''alpine-deployment-548dbddc9b-dnq9r''
                world0) =
       [''Pod alpine-deployment-548dbddc9b-dnq9r namespace default '' @ icinde
          @ '' bulunamad'' @ dotless_i @ ''\<newline>'']
   \<and> \<not> sublist (err_Error err_notfound)
         (''Pod alpine-deployment-548dbddc9b-dnq9r namespace default '' @ icinde
            @ '' bulunamad'' @ dotless_i @ ''\<newline>'')"
proof -
  let ?line = "''Pod alpine-deployment-548dbddc9b-dnq9r namespace default '' @ icinde
                 @ '' bulunamad'' @ dotless_i @ ''\<newline>''"
  have "CHR 0x22 \<in> set (err_Error err_notfound)"
    by (simp add: err_notfound_def)
  moreover have "CHR 0x22 \<notin> set ?line"
    by (simp add: icinde_def c_cedilla_def dotless_i_def)
  ultimately have "\<not> set (err_Error err_notfound) \<subseteq> set ?line"
    by blast
  then have "\<not> sublist (err_Error err_notfound) ?line"
    using set_mono_sublist by blast
  moreover have "stdout (checkSpecificPod cs_down ''default''
                           ''alpine-deployment-548dbddc9b-dnq9r'' world0) = [?line]"
    by (simp add: checkSpecificPod_stdout cs_down_def err_notfound_def IsNotFound_def)
  moreover have "snd (Pods_Get cs_down ''default'' ''alpine-deployment-548dbddc9b-dnq9r''
                        GetOptions_zero) = Some err_notfound"
    by (simp add: cs_down_def)
  ultimately show ?thesis by blast
qed

text \<open>
  C5, amended. When one of the five list queries fails, that query writes one line, its
  diagnostic with the text of the error, and no count line. When the get query fails, the
  inspector writes one line, the one of its first matching branch (not found: pod name
  and namespace; status error: the message of the status; any other error: the text of
  the error), and none of its four report lines. Whatever fails, an iteration sends all
  six requests in order, writes the header, the output of the six queries in order and
  the separator, and sleeps ten seconds.
\<close>

theorem failed_query_does_not_stop_iteration:
  "(snd (Pods_List cs [] ListOptions_zero) = Some e \<longrightarrow>
      stdout (checkPods cs w) = stdout w @
        [''Pod'lar'' @ dotless_i @ '' listelerken '' @ hata_olustu @ '': ''
           @ err_Error e @ ''\<newline>''])
   \<and> (snd (Namespaces_List cs ListOptions_zero) = Some e \<longrightarrow>
      stdout (checkNamespaces cs w) = stdout w @
        [''Namespace'leri listelerken '' @ hata_olustu @ '': '' @ err_Error e @ ''\<newline>''])
   \<and> (snd (Nodes_List cs ListOptions_zero) = Some e \<longrightarrow>
      stdout (checkNodes cs w) = stdout w @
        [''Node'lar'' @ dotless_i @ '' listelerken '' @ hata_olustu @ '': ''
           @ err_Error e @ ''\<newline>''])
   \<and> (snd (Events_List cs [] ListOptions_zero) = Some e \<longrightarrow>
      stdout (checkEvents cs w) = stdout w @
        [''Event'leri listelerken '' @ hata_olustu @ '': '' @ err_Error e @ ''\<newline>''])
   \<and> (snd (PersistentVolumeClaims_List cs [] ListOptions_zero) = Some e \<longrightarrow>
      stdout (checkPersistentVolumeClaims cs w) = stdout w @
        [''PersistentVolumeClaim'leri listelerken '' @ hata_olustu @ '': ''
           @ err_Error e @ ''\<newline>''])
   \<and> (snd (Pods_Get cs namespace podName GetOptions_zero) = Some e \<longrightarrow>
      stdout (checkSpecificPod cs namespace podName w) = stdout w @
        [if IsNotFound (Some e)
         then ''Pod '' @ podName @ '' namespace '' @ namespace @ '' '' @ icinde
                @ '' bulunamad'' @ dotless_i @ ''\<newline>''
         else case asStatusError (Some e) of
                Some statusError \<Rightarrow>
                  ''Pod '' @ podName @ '' namespace '' @ namespace @ '' '' @ icinde
                    @ '' al'' @ dotless_i @ ''nan hata: '' @ Message statusError
                    @ ''\<newline>''
              | None \<Rightarrow>
                  ''Pod bilgisi al'' @ dotless_i @ ''n'' @ dotless_i @ ''rken ''
                    @ hata_olustu @ '': '' @ err_Error e @ ''\<newline>''])
   \<and> requests (iteration cs w) = requests w @
        [ListRequest Pods [] ListOptions_zero,
         ListRequest Namespaces [] ListOptions_zero,
         ListRequest Nodes [] ListOptions_zero,
         ListRequest Events [] ListOptions_zero,
         ListRequest PersistentVolumeClaims [] ListOptions_zero,
         GetRequest Pods ''default'' ''alpine-deployment-548dbddc9b-dnq9r'' GetOptions_zero]
   \<and> stdout (iteration cs w) = stdout w @
        [''Cluster Durumu:\<newline>'']
        @ stdout (checkPods cs world0)
        @ stdout (checkNamespaces cs world0)
        @ stdout (checkNodes cs world0)
        @ stdout (checkEvents cs world0)
        @ stdout (checkPersistentVolumeClaims cs world0)
        @ [''\<newline>Detayl'' @ dotless_i @ '' pod kontrol'' @ u_umlaut @ '':\<newline>'']
        @ stdout (checkSpecificPod cs ''default'' ''alpine-deployment-548dbddc9b-dnq9r''
                    world0)
        @ [''\<newline>-----------------------------------\<newline>'']
   \<and> slept (iteration cs w) = slept w + 10"
proof -
  have lists:
    "snd (Pods_List cs [] ListOptions_zero) = Some e \<longrightarrow>
       stdout (checkPods cs w) = stdout w @
         [''Pod'lar'' @ dotless_i @ '' listelerken '' @ hata_olustu @ '': ''
            @ err_Error e @ ''\<newline>'']"
    "snd (Namespaces_List cs ListOptions_zero) = Some e \<longrightarrow>
       stdout (checkNamespaces cs w) = stdout w @
         [''Namespace'leri listelerken '' @ hata_olustu @ '': '' @ err_Error e @ ''\<newline>'']"
    "snd (Nodes_List cs ListOptions_zero) = Some e \<longrightarrow>
       stdout (checkNodes cs w) = stdout w @
         [''Node'lar'' @ dotless_i @ '' listelerken '' @ hata_olustu @ '': ''
            @ err_Error e @ ''\<newline>'']"
    "snd (Events_List cs [] ListOptions_zero) = Some e \<longrightarrow>
       stdout (checkEvents cs w) = stdout w @
         [''Event'leri listelerken '' @ hata_olustu @ '': '' @ err_Error e @ ''\<newline>'']"
    "snd (PersistentVolumeClaims_List cs [] ListOptions_zero) = Some e \<longrightarrow>
       stdout (checkPersistentVolumeClaims cs w) = stdout w @
         [''PersistentVolumeClaim'leri listelerken '' @ hata_olustu @ '': ''
            @ err_Error e @ ''\<newline>'']"
    by (simp_all add: checkPods_stdout checkNamespaces_stdout checkNodes_stdout
        checkEvents_stdout checkPersistentVolumeClaims_stdout)
  have get:
    "snd (Pods_Get cs namespace podName GetOptions_zero) = Some e \<longrightarrow>
       stdout (checkSpecificPod cs namespace podName w) = stdout w @
         [if IsNotFound (Some e)
          then ''Pod '' @ podName @ '' namespace '' @ namespace @ '' '' @ icinde
                 @ '' bulunamad'' @ dotless_i @ ''\<newline>''
          else case asStatusError (Some e) of
                 Some statusError \<Rightarrow>
                   ''Pod '' @ podName @ '' namespace '' @ namespace @ '' '' @ icinde
                     @ '' al'' @ dotless_i @ ''nan hata: '' @ Message statusError
                     @ ''\<newline>''
               | None \<Rightarrow>
                   ''Pod bilgisi al'' @ dotless_i @ ''n'' @ dotless_i @ ''rken ''
                     @ hata_olustu @ '': '' @ err_Error e @ ''\<newline>'']"
    by (simp add: checkSpecificPod_stdout asStatusError_def split: option.splits)
  have reqs: "requests (iteration cs w) = requests w @
      [ListRequest Pods [] ListOptions_zero,
       ListRequest Namespaces [] ListOptions_zero,
       ListRequest Nodes [] ListOptions_zero,
       ListRequest Events [] ListOptions_zero,
       ListRequest PersistentVolumeClaims [] ListOptions_zero,
       GetRequest Pods ''default'' ''alpine-deployment-548dbddc9b-dnq9r'' GetOptions_zero]"
    by (simp add: iteration_requests_def)
  have sleep: "slept (iteration cs w) = slept w + 10"
    by simp
  from lists get reqs iteration_stdout [of cs w] sleep show ?thesis
    by blast
qed

theorem failed_query_does_not_stop_iteration_witness:
  "snd (Pods_List cs_down [] ListOptions_zero) = Some err_refused
   \<and> stdout (checkPods cs_down world0) =
       [''Pod'lar'' @ dotless_i @ '' listelerken '' @ hata_olustu
          @ '': connection refused\<newline>'']
   \<and> snd (Namespaces_List cs_down ListOptions_zero) = Some err_refused
   \<and> stdout (checkNamespaces cs_down world0) =
       [''Namespace'leri listelerken '' @ hata_olustu @ '': connection refused\<newline>'']
   \<and> snd (Nodes_List cs_down ListOptions_zero) = Some err_refused
   \<and> stdout (checkNodes cs_down world0) =
       [''Node'lar'' @ dotless_i @ '' listelerken '' @ hata_olustu
          @ '': connection refused\<newline>'']
   \<and> snd (Events_List cs_down [] ListOptions_zero) = Some err_refused
   \<and> stdout (checkEvents cs_down world0) =
       [''Event'leri listelerken '' @ hata_olustu @ '': connection refused\<newline>'']
   \<and> snd (PersistentVolumeClaims_List cs_down [] ListOptions_zero) = Some err_refused
   \<and> stdout (checkPersistentVolumeClaims cs_down world0) =
       [''PersistentVolumeClaim'leri listelerken '' @ hata_olustu
          @ '': connection refused\<newline>'']
   \<and> snd (Pods_Get cs_down ''default'' ''alpine-deployment-548dbddc9b-dnq9r''
             GetOptions_zero) = Some err_notfound
   \<and> stdout (checkSpecificPod cs_down ''default'' ''alpine-deployment-548dbddc9b-dnq9r''
                world0) =
       [''Pod alpine-deployment-548dbddc9b-dnq9r namespace default '' @ icinde
          @ '' bulunamad'' @ dotless_i @ ''\<newline>'']
   \<and> requests (iteration cs_down world0) = iteration_requests
   \<and> length (stdout (iteration cs_down world0)) = 9
   \<and> slept (iteration cs_down world0) = 10"
proof -
  have fields:
    "snd (Pods_List cs_down [] ListOptions_zero) = Some err_refused"
    "snd (Namespaces_List cs_down ListOptions_zero) = Some err_refused"
    "snd (Nodes_List cs_down ListOptions_zero) = Some err_refused"
    "snd (Events_List cs_down [] ListOptions_zero) = Some err_refused"
    "snd (PersistentVolumeClaims_List cs_down [] ListOptions_zero) = Some err_refused"
    "snd (Pods_Get cs_down ''default'' ''alpine-deployment-548dbddc9b-dnq9r''
            GetOptions_zero) = Some err_notfound"
    by (simp_all add: cs_down_def)
  have texts:
    "err_Error err_refused = ''connection refused''"
    "IsNotFound (Some err_notfound)"
    by (simp_all add: err_refused_def err_notfound_def IsNotFound_def)
  show ?thesis
    using
      failed_query_does_not_stop_iteration [where cs = cs_down and e = err_refused
        and w = world0 and namespace = "''default''"
        and podName = "''alpine-deployment-548dbddc9b-dnq9r''"]
      failed_query_does_not_stop_iteration [where cs = cs_down and e = err_notfound
        and w = world0 and namespace = "''default''"
        and podName = "''alpine-deployment-548dbddc9b-dnq9r''"]
    by (simp add: fields texts iteration_requests_def)
qed

subsection \<open>The program as a whole\<close>

lemma foldl_no_effect:
  "(\<And>r c. r \<in> set rs \<Longrightarrow> effect r c = c) \<Longrightarrow> foldl (\<lambda>c r. effect r c) c rs = c"
  by (induction rs arbitrary: c) simp_all

lemma main_requests_subset:
  "set (requests (outcome_world (main env n))) \<subseteq> set iteration_requests"
  using main_requests [of env n] by auto

text \<open>
  C7. Every request the program sends is one of the six of an iteration, each a list or
  a get request and none a write: after any number of iterations of the loop, and for
  \<open>main\<close> in every environment, however it ends. So for every cluster on which
  requests other than writes have no effect, the requests of the program leave the state
  of the cluster as it was.
\<close>

theorem program_sends_only_list_and_get:
  "requests (loop n cs w) = requests w @ concat (replicate n iteration_requests)
   \<and> (\<forall>r \<in> set iteration_requests. is_list_or_get r \<and> \<not> is_write r)
   \<and> (\<forall>r \<in> set (requests (outcome_world (main env k))). is_list_or_get r \<and> \<not> is_write r)
   \<and> ((\<forall>r c. \<not> is_write r \<longrightarrow> effect r c = c) \<longrightarrow>
        foldl (\<lambda>c r. effect r c) c (requests (outcome_world (main env k))) = c)"
proof -
  have reads: "\<forall>r \<in> set iteration_requests. is_list_or_get r \<and> \<not> is_write r"
    using iteration_requests_reads by blast
  have sent: "\<forall>r \<in> set (requests (outcome_world (main env k))).
      is_list_or_get r \<and> \<not> is_write r"
    using reads main_requests_subset [of env k] by blast
  have "foldl (\<lambda>c r. effect r c) c (requests (outcome_world (main env k))) = c"
    if "\<forall>r c. \<not> is_write r \<longrightarrow> effect r c = c"
    using that sent by (intro foldl_no_effect) blast
  with reads sent show ?thesis
    by simp
qed

theorem program_sends_only_list_and_get_witness:
  "foldl (\<lambda>c r. count_writes r c) 0
     (requests (outcome_world (main env_ok (Suc (Suc 0))))) = 0
   \<and> requests (outcome_world (main env_ok (Suc (Suc 0))))
       = iteration_requests @ iteration_requests
   \<and> requests (loop (Suc 0) cs_ok world0) = iteration_requests
   \<and> is_list_or_get (ListRequest Pods [] ListOptions_zero)
   \<and> \<not> is_write (GetRequest Pods ''default'' ''alpine-deployment-548dbddc9b-dnq9r''
                      GetOptions_zero)"
proof -
  have sent: "requests (outcome_world (main env_ok (Suc (Suc 0))))
                = iteration_requests @ iteration_requests"
    by (simp add: main_def env_ok_def Let_def)
  have harmless: "\<forall>r c. \<not> is_write r \<longrightarrow> count_writes r c = c"
    by (simp add: count_writes_def)
  have members:
    "ListRequest Pods [] ListOptions_zero \<in> set iteration_requests"
    "GetRequest Pods ''default'' ''alpine-deployment-548dbddc9b-dnq9r'' GetOptions_zero
       \<in> set iteration_requests"
    by (simp_all add: iteration_requests_def)
  show ?thesis
    using sent harmless members
      program_sends_only_list_and_get [where n = "Suc 0" and cs = cs_ok and w = world0
        and env = env_ok and k = "Suc (Suc 0)" and effect = count_writes and c = 0]
    by simp
qed

text \<open>
  C8. When \<open>flag.Parse\<close> has returned and building the configuration fails, or the
  configuration is built and building the client fails, \<open>main\<close> stops by
  \<open>panic\<close> with the text of the error as its message. Each constructor has been called
  once, the second not at all when the first fails, and nothing has been written, no
  request sent and no time slept: no iteration has run, however long the process is
  observed.
\<close>

theorem bootstrap_failure_is_fatal:
  assumes "flag_Parse env = Inr given"
    and "kubeconfig = (case given of None \<Rightarrow> kubeconfigDefault env | Some v \<Rightarrow> v)"
    and "snd (BuildConfigFromFlags env [] kubeconfig) = Some e
         \<or> (snd (BuildConfigFromFlags env [] kubeconfig) = None
            \<and> snd (NewForConfig env (fst (BuildConfigFromFlags env [] kubeconfig))) = Some e)"
  shows "\<exists>w. main env n = Panicked (err_Error e) w
           \<and> stdout w = [] \<and> requests w = [] \<and> slept w = 0
           \<and> bootstrap w =
               (if snd (BuildConfigFromFlags env [] kubeconfig) = None
                then [CallBuildConfigFromFlags [] kubeconfig, CallNewForConfig]
                else [CallBuildConfigFromFlags [] kubeconfig])"
  using assms
  by (auto simp add: main_def Let_def case_prod_beta split: option.splits)

theorem bootstrap_failure_is_fatal_witness:
  "flag_Parse env_badconfig = Inr None
   \<and> kubeconfigDefault env_badconfig = ''/root/.kube/config''
   \<and> snd (BuildConfigFromFlags env_badconfig [] ''/root/.kube/config'') = Some err_refused
   \<and> (\<exists>w. main env_badconfig 3 = Panicked ''connection refused'' w
          \<and> stdout w = [] \<and> requests w = [] \<and> slept w = 0
          \<and> bootstrap w = [CallBuildConfigFromFlags [] ''/root/.kube/config''])
   \<and> flag_Parse env_badclient = Inr None
   \<and> kubeconfigDefault env_badclient = ''/root/.kube/config''
   \<and> snd (BuildConfigFromFlags env_badclient [] ''/root/.kube/config'') = None
   \<and> snd (NewForConfig env_badclient
             (fst (BuildConfigFromFlags env_badclient [] ''/root/.kube/config'')))
       = Some err_refused
   \<and> (\<exists>w. main env_badclient 3 = Panicked ''connection refused'' w
          \<and> stdout w = [] \<and> requests w = [] \<and> slept w = 0
          \<and> bootstrap w =
              [CallBuildConfigFromFlags [] ''/root/.kube/config'', CallNewForConfig])"
proof -
  have config:
    "flag_Parse env_badconfig = Inr None"
    "kubeconfigDefault env_badconfig = ''/root/.kube/config''"
    "snd (BuildConfigFromFlags env_badconfig [] ''/root/.kube/config'') = Some err_refused"
    by (simp_all add: env_badconfig_def kubeconfigDefault_def)
  have client:
    "flag_Parse env_badclient = Inr None"
    "kubeconfigDefault env_badclient = ''/root/.kube/config''"
    "snd (BuildConfigFromFlags env_badclient [] ''/root/.kube/config'') = None"
    "snd (NewForConfig env_badclient
            (fst (BuildConfigFromFlags env_badclient [] ''/root/.kube/config'')))
       = Some err_refused"
    by (simp_all add: env_badclient_def kubeconfigDefault_def)
  have msg: "err_Error err_refused = ''connection refused''"
    by (simp add: err_refused_def)
  have "\<exists>w. main env_badconfig 3 = Panicked (err_Error err_refused) w
          \<and> stdout w = [] \<and> requests w = [] \<and> slept w = 0
          \<and> bootstrap w =
              (if snd (BuildConfigFromFlags env_badconfig [] ''/root/.kube/config'') = None
               then [CallBuildConfigFromFlags [] ''/root/.kube/config'', CallNewForConfig]
               else [CallBuildConfigFromFlags [] ''/root/.kube/config''])"
    by (rule bootstrap_failure_is_fatal [where given = None]) (simp_all add: config)
  then have first: "\<exists>w. main env_badconfig 3 = Panicked ''connection refused'' w
          \<and> stdout w = [] \<and> requests w = [] \<and> slept w = 0
          \<and> bootstrap w = [CallBuildConfigFromFlags [] ''/root/.kube/config'']"
    by (simp add: config msg)
  have "\<exists>w. main env_badclient 3 = Panicked (err_Error err_refused) w
          \<and> stdout w = [] \<and> requests w = [] \<and> slept w = 0
          \<and> bootstrap w =
              (if snd (BuildConfigFromFlags env_badclient [] ''/root/.kube/config'') = None
               then [CallBuildConfigFromFlags [] ''/root/.kube/config'', CallNewForConfig]
               else [CallBuildConfigFromFlags [] ''/root/.kube/config''])"
    by (rule bootstrap_failure_is_fatal [where given = None])
      (simp_all add: env_badclient_def kubeconfigDefault_def)
  then have second: "\<exists>w. main env_badclient 3 = Panicked ''connection refused'' w
          \<and> stdout w = [] \<and> requests w = [] \<and> slept w = 0
          \<and> bootstrap w =
              [CallBuildConfigFromFlags [] ''/root/.kube/config'', CallNewForConfig]"
    by (simp add: client msg)
  from config client first second show ?thesis
    by blast
qed

text \<open>
  C9. What an iteration writes is its report, whatever was written before, and the
  report is fixed by the answers to the six requests of the iteration: two clients that
  give equal answers to them give equal reports. So N iterations against one client
  write N times the same report.
\<close>

theorem iterations_repeat_the_report:
  "stdout (iteration cs w) = stdout w @ report cs
   \<and> stdout (loop n cs w) = stdout w @ concat (replicate n (report cs))
   \<and> (Pods_List cs [] ListOptions_zero = Pods_List cs' [] ListOptions_zero
      \<and> Namespaces_List cs ListOptions_zero = Namespaces_List cs' ListOptions_zero
      \<and> Nodes_List cs ListOptions_zero = Nodes_List cs' ListOptions_zero
      \<and> Events_List cs [] ListOptions_zero = Events_List cs' [] ListOptions_zero
      \<and> PersistentVolumeClaims_List cs [] ListOptions_zero
          = PersistentVolumeClaims_List cs' [] ListOptions_zero
      \<and> Pods_Get cs ''default'' ''alpine-deployment-548dbddc9b-dnq9r'' GetOptions_zero
          = Pods_Get cs' ''default'' ''alpine-deployment-548dbddc9b-dnq9r'' GetOptions_zero
      \<longrightarrow> report cs = report cs' \<and> stdout (iteration cs w) = stdout (iteration cs' w))"
proof -
  have "report cs = report cs'"
    if "Pods_List cs [] ListOptions_zero = Pods_List cs' [] ListOptions_zero"
      and "Namespaces_List cs ListOptions_zero = Namespaces_List cs' ListOptions_zero"
      and "Nodes_List cs ListOptions_zero = Nodes_List cs' ListOptions_zero"
      and "Events_List cs [] ListOptions_zero = Events_List cs' [] ListOptions_zero"
      and "PersistentVolumeClaims_List cs [] ListOptions_zero
             = PersistentVolumeClaims_List cs' [] ListOptions_zero"
      and "Pods_Get cs ''default'' ''alpine-deployment-548dbddc9b-dnq9r'' GetOptions_zero
             = Pods_Get cs' ''default'' ''alpine-deployment-548dbddc9b-dnq9r''
                 GetOptions_zero"
  proof -
    have "stdout (checkPods cs world0) = stdout (checkPods cs' world0)"
      by (simp only: checkPods_stdout that)
    moreover have "stdout (checkNamespaces cs world0) = stdout (checkNamespaces cs' world0)"
      by (simp only: checkNamespaces_stdout that)
    moreover have "stdout (checkNodes cs world0) = stdout (checkNodes cs' world0)"
      by (simp only: checkNodes_stdout that)
    moreover have "stdout (checkEvents cs world0) = stdout (checkEvents cs' world0)"
      by (simp only: checkEvents_stdout that)
    moreover have "stdout (checkPersistentVolumeClaims cs world0)
        = stdout (checkPersistentVolumeClaims cs' world0)"
      by (simp only: checkPersistentVolumeClaims_stdout that)
    moreover have
      "stdout (checkSpecificPod cs ''default'' ''alpine-deployment-548dbddc9b-dnq9r'' world0)
       = stdout (checkSpecificPod cs' ''default'' ''alpine-deployment-548dbddc9b-dnq9r''
                   world0)"
      by (simp only: checkSpecificPod_stdout that)
    ultimately show ?thesis
      by (simp only: report_def iteration_stdout)
  qed
  then show ?thesis
    by (simp add: iteration_report loop_stdout)
qed

theorem iterations_repeat_the_report_witness:
  "Pods_List cs_ok [] ListOptions_zero = Pods_List cs_other [] ListOptions_zero
   \<and> Namespaces_List cs_ok ListOptions_zero = Namespaces_List cs_other ListOptions_zero
   \<and> Nodes_List cs_ok ListOptions_zero = Nodes_List cs_other ListOptions_zero
   \<and> Events_List cs_ok [] ListOptions_zero = Events_List cs_other [] ListOptions_zero
   \<and> PersistentVolumeClaims_List cs_ok [] ListOptions_zero
       = PersistentVolumeClaims_List cs_other [] ListOptions_zero
   \<and> Pods_Get cs_ok ''default'' ''alpine-deployment-548dbddc9b-dnq9r'' GetOptions_zero
       = Pods_Get cs_other ''default'' ''alpine-deployment-548dbddc9b-dnq9r'' GetOptions_zero
   \<and> report cs_ok = report cs_other
   \<and> stdout (loop (Suc (Suc 0)) cs_ok world0) = report cs_ok @ report cs_ok"
proof -
  have same:
    "Pods_List cs_ok [] ListOptions_zero = Pods_List cs_other [] ListOptions_zero"
    "Namespaces_List cs_ok ListOptions_zero = Namespaces_List cs_other ListOptions_zero"
    "Nodes_List cs_ok ListOptions_zero = Nodes_List cs_other ListOptions_zero"
    "Events_List cs_ok [] ListOptions_zero = Events_List cs_other [] ListOptions_zero"
    "PersistentVolumeClaims_List cs_ok [] ListOptions_zero
       = PersistentVolumeClaims_List cs_other [] ListOptions_zero"
    "Pods_Get cs_ok ''default'' ''alpine-deployment-548dbddc9b-dnq9r'' GetOptions_zero
       = Pods_Get cs_other ''default'' ''alpine-deployment-548dbddc9b-dnq9r''
           GetOptions_zero"
    by (simp_all add: cs_other_def cs_ok_def)
  show ?thesis
    using iterations_repeat_the_report [where cs = cs_ok and cs' = cs_other
        and w = world0 and n = "Suc (Suc 0)"]
    by (simp add: same)
qed

end
